theory Spec2Isabelle
  imports Complex_Main "HOL-Library.Sublist"
begin

section \<open>Electricity billing (faturamento_energia.py)\<close>

text \<open>
  A shallow embedding of the pure functions of \<^verbatim>\<open>faturamento_energia.py\<close>:
  the validators, the progressive tariff by consumption bands (faixas), the tariff flag
  (bandeira) surcharge, the taxes (impostos), the bill (faturamento) and its invariant
  check. The Tk interface is not modelled.
\<close>

subsection \<open>Python floats\<close>

text \<open>
  The band table of the source holds \<^verbatim>\<open>float('inf')\<close>, and \<^verbatim>\<open>float(str)\<close> accepts
  the spellings of infinity and of not-a-number, so the number type has these values
  beside the finite ones. Finite values are real numbers and finite arithmetic is exact:
  the rounding and the overflow of binary64 are not modelled, and neither is the sign of
  zero. The special values follow IEEE 754 as Python exposes it: every comparison with
  NaN is false, \<open>inf - inf\<close> and \<open>inf * 0\<close> are NaN.
\<close>

datatype pyfloat = Fin real | PInf | NInf | NaN

text \<open>\<^verbatim>\<open>a < b\<close>\<close>

fun flt :: "pyfloat \<Rightarrow> pyfloat \<Rightarrow> bool" where
  "flt (Fin x) (Fin y) = (x < y)"
| "flt (Fin x) PInf = True"
| "flt NInf (Fin y) = True"
| "flt NInf PInf = True"
| "flt _ _ = False"

text \<open>\<^verbatim>\<open>a <= b\<close>\<close>

fun fle :: "pyfloat \<Rightarrow> pyfloat \<Rightarrow> bool" where
  "fle (Fin x) (Fin y) = (x \<le> y)"
| "fle (Fin x) PInf = True"
| "fle NInf (Fin y) = True"
| "fle NInf PInf = True"
| "fle PInf PInf = True"
| "fle NInf NInf = True"
| "fle NaN _ = False"
| "fle _ NaN = False"
| "fle PInf _ = False"
| "fle _ NInf = False"

text \<open>\<^verbatim>\<open>a > b\<close>\<close>

definition fgt :: "pyfloat \<Rightarrow> pyfloat \<Rightarrow> bool" where
  "fgt a b = flt b a"

text \<open>\<^verbatim>\<open>a != b\<close>: NaN differs from everything, itself included.\<close>

fun fne :: "pyfloat \<Rightarrow> pyfloat \<Rightarrow> bool" where
  "fne NaN _ = True"
| "fne _ NaN = True"
| "fne a b = (a \<noteq> b)"

fun fneg :: "pyfloat \<Rightarrow> pyfloat" where
  "fneg (Fin x) = Fin (- x)"
| "fneg PInf = NInf"
| "fneg NInf = PInf"
| "fneg NaN = NaN"

fun fadd :: "pyfloat \<Rightarrow> pyfloat \<Rightarrow> pyfloat" where
  "fadd (Fin x) (Fin y) = Fin (x + y)"
| "fadd NaN _ = NaN"
| "fadd _ NaN = NaN"
| "fadd PInf NInf = NaN"
| "fadd NInf PInf = NaN"
| "fadd PInf _ = PInf"
| "fadd _ PInf = PInf"
| "fadd NInf _ = NInf"
| "fadd _ NInf = NInf"

definition fsub :: "pyfloat \<Rightarrow> pyfloat \<Rightarrow> pyfloat" where
  "fsub a b = fadd a (fneg b)"

text \<open>An infinity times a finite factor: the sign of the factor decides, zero gives NaN.\<close>

definition inf_times :: "pyfloat \<Rightarrow> real \<Rightarrow> pyfloat" where
  "inf_times i x = (if 0 < x then i else if x < 0 then fneg i else NaN)"

fun fmul :: "pyfloat \<Rightarrow> pyfloat \<Rightarrow> pyfloat" where
  "fmul (Fin x) (Fin y) = Fin (x * y)"
| "fmul NaN _ = NaN"
| "fmul _ NaN = NaN"
| "fmul PInf (Fin y) = inf_times PInf y"
| "fmul NInf (Fin y) = inf_times NInf y"
| "fmul (Fin x) PInf = inf_times PInf x"
| "fmul (Fin x) NInf = inf_times NInf x"
| "fmul PInf PInf = PInf"
| "fmul NInf NInf = PInf"
| "fmul PInf NInf = NInf"
| "fmul NInf PInf = NInf"


text \<open>
  The builtin \<^verbatim>\<open>min(a, b)\<close> keeps its first argument unless the second compares
  smaller, so a NaN in the first place is returned.
\<close>

definition py_min :: "pyfloat \<Rightarrow> pyfloat \<Rightarrow> pyfloat" where
  "py_min a b = (if flt b a then b else a)"

text \<open>The exceptions the modelled code can raise.\<close>

datatype py_error = KeyError string | ValueError | OverflowError

text \<open>\<^verbatim>\<open>int(x)\<close> truncates towards zero and raises on the special values.\<close>

fun py_int :: "pyfloat \<Rightarrow> py_error + int" where
  "py_int (Fin x) = Inr (if 0 \<le> x then \<lfloor>x\<rfloor> else \<lceil>x\<rceil>)"
| "py_int PInf = Inl OverflowError"
| "py_int NInf = Inl OverflowError"
| "py_int NaN = Inl ValueError"

subsection \<open>Strings\<close>

text \<open>
  A Python string is modelled by its UTF-8 bytes; the characters outside ASCII that the
  source writes are spelled byte by byte.
\<close>

definition digit_char :: "nat \<Rightarrow> char" where
  "digit_char d = ''0123456789'' ! d"

function str_nat :: "nat \<Rightarrow> string" where
  "str_nat n = (if n < 10 then [digit_char n] else str_nat (n div 10) @ [digit_char (n mod 10)])"
  by pat_completeness auto
termination
  by (relation "measure id") auto

declare str_nat.simps [simp del]

text \<open>\<^verbatim>\<open>str(i)\<close> for an integer, as the f-string renders it.\<close>

definition str_int :: "int \<Rightarrow> string" where
  "str_int i = (if i < 0 then CHR ''-'' # str_nat (nat (- i)) else str_nat (nat i))"

subsection \<open>Configuration tables\<close>

text \<open>
  A band is the tuple \<^verbatim>\<open>(inicio, fim, tarifa)\<close>. The source writes the finite bounds as
  Python integers; arithmetic and comparison of an integer with a float go through its
  exact value, so they are the finite floats of the same value here.
\<close>

type_synonym faixa_t = "pyfloat \<times> pyfloat \<times> pyfloat"

definition TARIFAS_FAIXAS :: "faixa_t list" where
  "TARIFAS_FAIXAS =
     [(Fin 0, Fin 100, Fin 0.50),
      (Fin 100, Fin 200, Fin 0.75),
      (Fin 200, Fin 500, Fin 1.00),
      (Fin 500, PInf, Fin 1.35)]"

text \<open>The dictionaries keep insertion order, so they are association lists.\<close>

definition BANDEIRAS :: "(string \<times> pyfloat) list" where
  "BANDEIRAS = [(''verde'', Fin 0.0), (''amarela'', Fin 0.05), (''vermelha'', Fin 0.10)]"

definition IMPOSTOS :: "(string \<times> pyfloat) list" where
  "IMPOSTOS = [(''ICMS'', Fin 0.18), (''PIS'', Fin 0.0165), (''COFINS'', Fin 0.0761)]"

text \<open>\<^verbatim>\<open>reduce(f, xs, init)\<close> of functools folds from the left.\<close>

definition reduce :: "('b \<Rightarrow> 'a \<Rightarrow> 'b) \<Rightarrow> 'a list \<Rightarrow> 'b \<Rightarrow> 'b" where
  "reduce f xs init = foldl f init xs"

subsection \<open>Tariff by consumption bands\<close>

definition calcular_faixa :: "pyfloat \<Rightarrow> faixa_t \<Rightarrow> pyfloat \<times> pyfloat" where
  "calcular_faixa consumo_restante fx =
     (case fx of (inicio, fim, tarifa) \<Rightarrow>
        let kwh_faixa = fsub fim inicio;
            kwh_usado = py_min consumo_restante kwh_faixa;
            valor = fmul kwh_usado tarifa
        in (kwh_usado, valor))"

text \<open>One entry of the breakdown: the dictionary with the keys faixa, kwh, tarifa, valor.\<close>

record linha =
  faixa :: string
  kwh :: pyfloat
  tarifa :: pyfloat
  valor :: pyfloat

text \<open>The sign of infinity (U+221E) in UTF-8.\<close>

definition simbolo_infinito :: string where
  "simbolo_infinito = [CHR 0xE2, CHR 0x88, CHR 0x9E]"

text \<open>
  The label \<^verbatim>\<open>f"{int(faixa[0])}-{int(faixa[1]) if faixa[1] != float('inf') else '...'} kWh"\<close>;
  \<^verbatim>\<open>int\<close> raises on a bound that is not finite.
\<close>

definition rotulo_faixa :: "faixa_t \<Rightarrow> py_error + string" where
  "rotulo_faixa fx =
     (case fx of (inicio, fim, _) \<Rightarrow>
        (case py_int inicio of
           Inl e \<Rightarrow> Inl e
         | Inr i \<Rightarrow>
             if fne fim PInf then
               (case py_int fim of
                  Inl e \<Rightarrow> Inl e
                | Inr j \<Rightarrow> Inr (str_int i @ ''-'' @ str_int j @ '' kWh''))
             else Inr (str_int i @ ''-'' @ simbolo_infinito @ '' kWh'')))"

text \<open>
  The loop of \<^verbatim>\<open>calcular_tarifacao_por_faixas\<close> over the remaining bands, with its two
  variables: the consumption still to bill and the entries appended so far.
\<close>

fun faixas_loop :: "faixa_t list \<Rightarrow> pyfloat \<Rightarrow> linha list \<Rightarrow> py_error + linha list" where
  "faixas_loop [] consumo_restante resultados = Inr resultados"
| "faixas_loop (fx # fxs) consumo_restante resultados =
     (if fle consumo_restante (Fin 0) then Inr resultados
      else
        (case calcular_faixa consumo_restante fx of (kwh_usado, valor_faixa) \<Rightarrow>
           if fgt kwh_usado (Fin 0) then
             (case rotulo_faixa fx of
                Inl e \<Rightarrow> Inl e
              | Inr rotulo \<Rightarrow>
                  faixas_loop fxs (fsub consumo_restante kwh_usado)
                    (resultados @
                       [\<lparr>faixa = rotulo, kwh = kwh_usado, tarifa = snd (snd fx),
                         valor = valor_faixa\<rparr>]))
           else faixas_loop fxs (fsub consumo_restante kwh_usado) resultados))"

definition calcular_tarifacao_por_faixas :: "pyfloat \<Rightarrow> py_error + linha list" where
  "calcular_tarifacao_por_faixas consumo = faixas_loop TARIFAS_FAIXAS consumo []"

subsection \<open>Flag surcharge and taxes\<close>

text \<open>\<^verbatim>\<open>BANDEIRAS[bandeira]\<close> raises KeyError on a key the dictionary does not hold.\<close>

definition calcular_adicional_bandeira :: "pyfloat \<Rightarrow> string \<Rightarrow> py_error + pyfloat" where
  "calcular_adicional_bandeira subtotal b =
     (case map_of BANDEIRAS b of
        None \<Rightarrow> Inl (KeyError b)
      | Some adicional \<Rightarrow> Inr (fmul subtotal adicional))"

definition calcular_imposto :: "pyfloat \<Rightarrow> pyfloat \<Rightarrow> pyfloat" where
  "calcular_imposto base_calculo aliquota = fmul base_calculo aliquota"

definition calcular_impostos :: "pyfloat \<Rightarrow> (string \<times> pyfloat) list" where
  "calcular_impostos base_calculo =
     map (\<lambda>item. (fst item, calcular_imposto base_calculo (snd item))) IMPOSTOS"

subsection \<open>The bill\<close>

record faturamento =
  consumo_kwh :: pyfloat
  bandeira :: string
  faixas :: "linha list"
  subtotal_consumo :: pyfloat
  adicional_bandeira :: pyfloat
  base_impostos :: pyfloat
  impostos :: "(string \<times> pyfloat) list"
  total_impostos :: pyfloat
  total_final :: pyfloat

definition calcular_faturamento :: "pyfloat \<Rightarrow> string \<Rightarrow> py_error + faturamento" where
  "calcular_faturamento consumo b =
     (case calcular_tarifacao_por_faixas consumo of
        Inl e \<Rightarrow> Inl e
      | Inr faixas_detalhadas \<Rightarrow>
          let subtotal = reduce (\<lambda>acc f. fadd acc (valor f)) faixas_detalhadas (Fin 0.0)
          in
            (case calcular_adicional_bandeira subtotal b of
               Inl e \<Rightarrow> Inl e
             | Inr adicional \<Rightarrow>
                 let base = fadd subtotal adicional;
                     impostos_detalhados = calcular_impostos base;
                     total_imp =
                       reduce (\<lambda>acc v. fadd acc v) (map snd impostos_detalhados) (Fin 0.0);
                     total = fadd base total_imp
                 in Inr \<lparr>consumo_kwh = consumo, bandeira = b, faixas = faixas_detalhadas,
                          subtotal_consumo = subtotal, adicional_bandeira = adicional,
                          base_impostos = base, impostos = impostos_detalhados,
                          total_impostos = total_imp, total_final = total\<rparr>))"


subsection \<open>The string operations of the validators\<close>

text \<open>\<^verbatim>\<open>s.replace(old, new)\<close> for single characters.\<close>

definition py_replace :: "char \<Rightarrow> char \<Rightarrow> string \<Rightarrow> string" where
  "py_replace old new s = map (\<lambda>c. if c = old then new else c) s"

text \<open>
  \<^verbatim>\<open>s.lower()\<close> on the ASCII letters. A character outside ASCII keeps its bytes; the
  strings the validators compare the result with are ASCII.
\<close>

definition lower_char :: "char \<Rightarrow> char" where
  "lower_char c =
     (case map_of (zip ''ABCDEFGHIJKLMNOPQRSTUVWXYZ'' ''abcdefghijklmnopqrstuvwxyz'') c of
        None \<Rightarrow> c
      | Some l \<Rightarrow> l)"

definition py_lower :: "string \<Rightarrow> string" where
  "py_lower s = map lower_char s"

text \<open>\<^verbatim>\<open>sep.join(xs)\<close>\<close>

fun py_join :: "string \<Rightarrow> string list \<Rightarrow> string" where
  "py_join sep [] = []"
| "py_join sep [x] = x"
| "py_join sep (x # y # ys) = x @ sep @ py_join sep (y # ys)"

subsection \<open>The builtin float(str)\<close>

text \<open>
  \<^verbatim>\<open>float(s)\<close> follows the grammar of the language reference, on ASCII input: white
  space (blank, tab, line feed, vertical tab, form feed, carriage return) around the
  text is dropped, then an optional sign, then \<^verbatim>\<open>inf\<close>,
  \<^verbatim>\<open>infinity\<close> or \<^verbatim>\<open>nan\<close> in any case, or a decimal number: digits with single
  underscores between them, an optional point, an optional exponent. \<open>None\<close> is the
  ValueError. The value of a decimal text is its exact value. Digits and white space
  outside ASCII, which Python also accepts, are not modelled.
\<close>

definition is_space :: "char \<Rightarrow> bool" where
  "is_space c =
     (c \<in> set [CHR 0x09, CHR 0x0A, CHR 0x0B, CHR 0x0C, CHR 0x0D, CHR '' ''])"

definition py_strip :: "string \<Rightarrow> string" where
  "py_strip s = rev (dropWhile is_space (rev (dropWhile is_space s)))"

definition digit_val :: "char \<Rightarrow> nat option" where
  "digit_val c =
     map_of [(CHR ''0'', 0), (CHR ''1'', 1), (CHR ''2'', 2), (CHR ''3'', 3), (CHR ''4'', 4),
             (CHR ''5'', 5), (CHR ''6'', 6), (CHR ''7'', 7), (CHR ''8'', 8), (CHR ''9'', 9)] c"

text \<open>
  The rest of a run of digits once its first digit is read: a digit, or an underscore
  with a digit after it. Returns the digits and the text left.
\<close>

fun py_digits :: "nat list \<Rightarrow> string \<Rightarrow> nat list \<times> string" where
  "py_digits acc [] = (acc, [])"
| "py_digits acc [c] =
     (case digit_val c of Some d \<Rightarrow> (acc @ [d], []) | None \<Rightarrow> (acc, [c]))"
| "py_digits acc (c # c' # cs) =
     (case digit_val c of
        Some d \<Rightarrow> py_digits (acc @ [d]) (c' # cs)
      | None \<Rightarrow>
          if c = CHR ''_'' then
            (case digit_val c' of
               Some d' \<Rightarrow> py_digits (acc @ [d']) cs
             | None \<Rightarrow> (acc, c # c' # cs))
          else (acc, c # c' # cs))"

definition py_digitpart :: "string \<Rightarrow> (nat list \<times> string) option" where
  "py_digitpart s =
     (case s of
        [] \<Rightarrow> None
      | c # cs \<Rightarrow> (case digit_val c of None \<Rightarrow> None | Some d \<Rightarrow> Some (py_digits [d] cs)))"

definition digits_val :: "nat list \<Rightarrow> nat" where
  "digits_val ds = foldl (\<lambda>a d. 10 * a + d) 0 ds"

text \<open>Integer digits, fraction digits and the text left; a point alone is no number.\<close>

definition py_number :: "string \<Rightarrow> (nat list \<times> nat list \<times> string) option" where
  "py_number s =
     (case py_digitpart s of
        Some (ip, r) \<Rightarrow>
          (case r of
             [] \<Rightarrow> Some (ip, [], [])
           | c # r' \<Rightarrow>
               if c = CHR ''.'' then
                 (case py_digitpart r' of
                    Some (fp, r'') \<Rightarrow> Some (ip, fp, r'')
                  | None \<Rightarrow> Some (ip, [], r'))
               else Some (ip, [], r))
      | None \<Rightarrow>
          (case s of
             [] \<Rightarrow> None
           | c # r' \<Rightarrow>
               if c = CHR ''.'' then
                 (case py_digitpart r' of
                    Some (fp, r'') \<Rightarrow> Some ([], fp, r'')
                  | None \<Rightarrow> None)
               else None))"

definition py_sign :: "string \<Rightarrow> bool \<times> string" where
  "py_sign s =
     (case s of
        [] \<Rightarrow> (False, [])
      | c # r \<Rightarrow>
          if c = CHR ''-'' then (True, r) else if c = CHR ''+'' then (False, r) else (False, s))"

definition py_exponent :: "string \<Rightarrow> (int \<times> string) option" where
  "py_exponent s =
     (case s of
        [] \<Rightarrow> Some (0, [])
      | c # r \<Rightarrow>
          if c = CHR ''e'' \<or> c = CHR ''E'' then
            (case py_sign r of (neg, r') \<Rightarrow>
               (case py_digitpart r' of
                  None \<Rightarrow> None
                | Some (ds, r'') \<Rightarrow>
                    Some (if neg then - int (digits_val ds) else int (digits_val ds), r'')))
          else Some (0, s))"

definition scale10 :: "real \<Rightarrow> int \<Rightarrow> real" where
  "scale10 x e = (if 0 \<le> e then x * 10 ^ nat e else x / 10 ^ nat (- e))"

definition py_float :: "string \<Rightarrow> pyfloat option" where
  "py_float s =
     (case py_sign (py_strip s) of (neg, u) \<Rightarrow>
        if py_lower u = ''inf'' \<or> py_lower u = ''infinity'' then
          Some (if neg then NInf else PInf)
        else if py_lower u = ''nan'' then Some NaN
        else
          (case py_number u of
             None \<Rightarrow> None
           | Some (ip, fp, r) \<Rightarrow>
               (case py_exponent r of
                  Some (e, []) \<Rightarrow>
                    let m = real (digits_val ip) + real (digits_val fp) / 10 ^ length fp
                    in Some (Fin (scale10 (if neg then - m else m) e))
                | _ \<Rightarrow> None)))"

subsection \<open>Validation\<close>

definition msg_positivo :: string where
  "msg_positivo = ''O valor deve ser positivo''"

text \<open>The text "Valor invalido. Digite um numero valido", its accented letters in UTF-8.\<close>

definition msg_invalido :: string where
  "msg_invalido =
     ''Valor inv'' @ [CHR 0xC3, CHR 0xA1] @ ''lido. Digite um n'' @ [CHR 0xC3, CHR 0xBA]
       @ ''mero v'' @ [CHR 0xC3, CHR 0xA1] @ ''lido''"

text \<open>
  The result is the tuple \<^verbatim>\<open>(e_valido, valor_convertido, mensagem_erro)\<close>; the
  \<^verbatim>\<open>except ValueError\<close> branch is the case \<open>None\<close> of \<open>py_float\<close>.
\<close>

definition validar_numero_positivo :: "string \<Rightarrow> bool \<times> pyfloat option \<times> string" where
  "validar_numero_positivo valor_s =
     (case py_float (py_replace CHR '','' CHR ''.'' valor_s) of
        None \<Rightarrow> (False, None, msg_invalido)
      | Some num \<Rightarrow>
          if flt num (Fin 0) then (False, None, msg_positivo) else (True, Some num, ''''))"

text \<open>The text "Bandeira invalida. Use: " and the keys of BANDEIRAS joined by ", ".\<close>

definition msg_bandeira :: string where
  "msg_bandeira =
     ''Bandeira inv'' @ [CHR 0xC3, CHR 0xA1] @ ''lida. Use: ''
       @ py_join '', '' (map fst BANDEIRAS)"

definition validar_bandeira :: "string \<Rightarrow> bool \<times> string" where
  "validar_bandeira b =
     (let bandeira_lower = py_lower b
      in if bandeira_lower \<in> set (map fst BANDEIRAS) then (True, '''')
         else (False, msg_bandeira))"

text \<open>The result is \<^verbatim>\<open>(sucesso, consumo_validado, bandeira_validada, mensagem_erro)\<close>.\<close>

definition validar_entradas ::
  "string \<Rightarrow> string \<Rightarrow> bool \<times> pyfloat option \<times> string \<times> string" where
  "validar_entradas consumo b =
     (case validar_numero_positivo consumo of (valido_consumo, consumo_val, msg_consumo) \<Rightarrow>
        if \<not> valido_consumo then (False, None, '''', msg_consumo)
        else
          (case validar_bandeira b of (valido_bandeira, msg_band) \<Rightarrow>
             if \<not> valido_bandeira then (False, None, '''', msg_band)
             else (True, consumo_val, py_lower b, '''')))"

section \<open>Properties\<close>

subsection \<open>The breakdown by bands, range by range\<close>

lemma rotulo_1: "rotulo_faixa (Fin 0, Fin 100, t) = Inr ''0-100 kWh''"
  by (simp add: rotulo_faixa_def str_int_def str_nat.simps digit_char_def)

lemma rotulo_2: "rotulo_faixa (Fin 100, Fin 200, t) = Inr ''100-200 kWh''"
  by (simp add: rotulo_faixa_def str_int_def str_nat.simps digit_char_def)

lemma rotulo_3: "rotulo_faixa (Fin 200, Fin 500, t) = Inr ''200-500 kWh''"
  by (simp add: rotulo_faixa_def str_int_def str_nat.simps digit_char_def)

lemma rotulo_4: "rotulo_faixa (Fin 500, PInf, t) = Inr (''500-'' @ simbolo_infinito @ '' kWh'')"
  by (simp add: rotulo_faixa_def str_int_def str_nat.simps digit_char_def)

lemmas rotulos = rotulo_1 rotulo_2 rotulo_3 rotulo_4

lemmas loop_defs = calcular_tarifacao_por_faixas_def TARIFAS_FAIXAS_def calcular_faixa_def
  fsub_def fgt_def py_min_def inf_times_def Let_def

lemma tarifacao_nao_positivo:
  "x \<le> 0 \<Longrightarrow> calcular_tarifacao_por_faixas (Fin x) = Inr []"
  by (simp add: loop_defs)

lemma tarifacao_faixa_1:
  "0 < x \<Longrightarrow> x \<le> 100 \<Longrightarrow> calcular_tarifacao_por_faixas (Fin x) =
     Inr [\<lparr>faixa = ''0-100 kWh'', kwh = Fin x, tarifa = Fin 0.50, valor = Fin (x * 0.50)\<rparr>]"
  by (simp add: loop_defs rotulos)

lemma tarifacao_faixa_2:
  "100 < x \<Longrightarrow> x \<le> 200 \<Longrightarrow> calcular_tarifacao_por_faixas (Fin x) =
     Inr [\<lparr>faixa = ''0-100 kWh'', kwh = Fin 100, tarifa = Fin 0.50, valor = Fin 50\<rparr>,
          \<lparr>faixa = ''100-200 kWh'', kwh = Fin (x - 100), tarifa = Fin 0.75,
            valor = Fin ((x - 100) * 0.75)\<rparr>]"
  by (simp add: loop_defs rotulos)

lemma tarifacao_faixa_3:
  "200 < x \<Longrightarrow> x \<le> 500 \<Longrightarrow> calcular_tarifacao_por_faixas (Fin x) =
     Inr [\<lparr>faixa = ''0-100 kWh'', kwh = Fin 100, tarifa = Fin 0.50, valor = Fin 50\<rparr>,
          \<lparr>faixa = ''100-200 kWh'', kwh = Fin 100, tarifa = Fin 0.75, valor = Fin 75\<rparr>,
          \<lparr>faixa = ''200-500 kWh'', kwh = Fin (x - 200), tarifa = Fin 1.00,
            valor = Fin ((x - 200) * 1.00)\<rparr>]"
  by (simp add: loop_defs rotulos)

lemma tarifacao_faixa_4:
  "500 < x \<Longrightarrow> calcular_tarifacao_por_faixas (Fin x) =
     Inr [\<lparr>faixa = ''0-100 kWh'', kwh = Fin 100, tarifa = Fin 0.50, valor = Fin 50\<rparr>,
          \<lparr>faixa = ''100-200 kWh'', kwh = Fin 100, tarifa = Fin 0.75, valor = Fin 75\<rparr>,
          \<lparr>faixa = ''200-500 kWh'', kwh = Fin 300, tarifa = Fin 1.00, valor = Fin 300\<rparr>,
          \<lparr>faixa = ''500-'' @ simbolo_infinito @ '' kWh'', kwh = Fin (x - 500),
            tarifa = Fin 1.35, valor = Fin ((x - 500) * 1.35)\<rparr>]"
  by (simp add: loop_defs rotulos)

lemma tarifacao_PInf:
  "calcular_tarifacao_por_faixas PInf =
     Inr [\<lparr>faixa = ''0-100 kWh'', kwh = Fin 100, tarifa = Fin 0.50, valor = Fin 50\<rparr>,
          \<lparr>faixa = ''100-200 kWh'', kwh = Fin 100, tarifa = Fin 0.75, valor = Fin 75\<rparr>,
          \<lparr>faixa = ''200-500 kWh'', kwh = Fin 300, tarifa = Fin 1.00, valor = Fin 300\<rparr>,
          \<lparr>faixa = ''500-'' @ simbolo_infinito @ '' kWh'', kwh = PInf,
            tarifa = Fin 1.35, valor = PInf\<rparr>]"
  by (simp add: loop_defs rotulos)

lemma tarifacao_NInf: "calcular_tarifacao_por_faixas NInf = Inr []"
  by (simp add: loop_defs)

lemma tarifacao_NaN: "calcular_tarifacao_por_faixas NaN = Inr []"
  by (simp add: loop_defs)

subsection \<open>Unfolding rules\<close>

lemmas fat_defs = calcular_faturamento_def reduce_def calcular_adicional_bandeira_def
  BANDEIRAS_def calcular_impostos_def calcular_imposto_def IMPOSTOS_def Let_def

lemmas val_defs = validar_numero_positivo_def py_float_def py_replace_def py_strip_def is_space_def
  py_sign_def py_lower_def lower_char_def py_number_def py_digitpart_def digit_val_def
  py_exponent_def digits_val_def scale10_def

subsection \<open>The worked bill\<close>


subsection \<open>The consumed quantities add up\<close>



subsection \<open>The bill from its breakdown\<close>

lemma tarifacao_total: "\<exists>itens. calcular_tarifacao_por_faixas c = Inr itens"
proof (cases c)
  case (Fin x)
  consider "x \<le> 0" | "0 < x" "x \<le> 100" | "100 < x" "x \<le> 200"
    | "200 < x" "x \<le> 500" | "500 < x"
    by linarith
  then show ?thesis
    using Fin
    by cases
      (simp_all add: tarifacao_nao_positivo tarifacao_faixa_1 tarifacao_faixa_2
        tarifacao_faixa_3 tarifacao_faixa_4)
qed (simp_all add: tarifacao_PInf tarifacao_NInf tarifacao_NaN)

lemma bandeira_valida:
  assumes "b \<in> set (map fst BANDEIRAS)"
  shows "map_of BANDEIRAS b = Some (Fin 0) \<or> map_of BANDEIRAS b = Some (Fin 0.05)
           \<or> map_of BANDEIRAS b = Some (Fin 0.10)"
  using assms by (auto simp: BANDEIRAS_def)

lemma faturamento_Inr:
  assumes "calcular_tarifacao_por_faixas c = Inr itens" and "map_of BANDEIRAS b = Some t"
  shows "calcular_faturamento c b =
     (let subtotal = reduce (\<lambda>acc f. fadd acc (valor f)) itens (Fin 0);
          adicional = fmul subtotal t;
          base = fadd subtotal adicional;
          imps = calcular_impostos base;
          total_imp = reduce fadd (map snd imps) (Fin 0)
      in Inr \<lparr>consumo_kwh = c, bandeira = b, faixas = itens, subtotal_consumo = subtotal,
               adicional_bandeira = adicional, base_impostos = base, impostos = imps,
               total_impostos = total_imp, total_final = fadd base total_imp\<rparr>)"
  using assms by (simp add: calcular_faturamento_def calcular_adicional_bandeira_def Let_def)



subsection \<open>The fields of the bill\<close>

text \<open>
  Claim C8. For every consumption \<open>c \<ge> 0\<close> and every flag of the table the bill is
  returned and its fields satisfy the equations of the orchestration: the entries are
  the breakdown by bands, the subtotal is the left fold of their amounts from zero, the
  surcharge is the one of the flag on that subtotal, the tax base is subtotal plus
  surcharge, each tax is the base times its rate in the order of the table, the tax
  total is the left fold of the taxes, and the final total is base plus tax total.
\<close>

theorem campos_do_faturamento:
  assumes "fle (Fin 0) c" and "b \<in> set (map fst BANDEIRAS)"
  shows "\<exists>r. calcular_faturamento c b = Inr r
           \<and> calcular_tarifacao_por_faixas c = Inr (faixas r)
           \<and> subtotal_consumo r = foldl (\<lambda>acc f. fadd acc (valor f)) (Fin 0) (faixas r)
           \<and> calcular_adicional_bandeira (subtotal_consumo r) b = Inr (adicional_bandeira r)
           \<and> base_impostos r = fadd (subtotal_consumo r) (adicional_bandeira r)
           \<and> impostos r =
               map (\<lambda>(nome, aliquota). (nome, fmul (base_impostos r) aliquota)) IMPOSTOS
           \<and> total_impostos r = foldl fadd (Fin 0) (map snd (impostos r))
           \<and> total_final r = fadd (base_impostos r) (total_impostos r)"
proof -
  obtain itens where itens: "calcular_tarifacao_por_faixas c = Inr itens"
    using tarifacao_total by blast
  obtain t where t: "map_of BANDEIRAS b = Some t"
    using bandeira_valida [OF assms(2)] by blast
  show ?thesis
    using t itens
    by (simp add: faturamento_Inr [OF itens t] Let_def reduce_def calcular_impostos_def
        calcular_imposto_def calcular_adicional_bandeira_def case_prod_unfold)
qed

theorem campos_do_faturamento_witness:
  "fle (Fin 0) (Fin 250) \<and> ''amarela'' \<in> set (map fst BANDEIRAS)
     \<and> (\<exists>r. calcular_faturamento (Fin 250) ''amarela'' = Inr r
           \<and> subtotal_consumo r = Fin 175 \<and> adicional_bandeira r = Fin 8.75
           \<and> base_impostos r = fadd (subtotal_consumo r) (adicional_bandeira r)
           \<and> total_final r = fadd (base_impostos r) (total_impostos r))"
proof -
  have h1: "fle (Fin 0) (Fin 250)" by simp
  have h2: "''amarela'' \<in> set (map fst BANDEIRAS)" by (simp add: BANDEIRAS_def)
  from campos_do_faturamento [OF h1 h2] h1 h2 show ?thesis
    by (simp add: fat_defs tarifacao_faixa_3)
qed

subsection \<open>The invariant check\<close>






subsection \<open>Monotonicity of the final total\<close>




subsection \<open>One band\<close>

text \<open>
  Claim C4, as amended. For every remaining consumption and every band of the table,
  \<^verbatim>\<open>calcular_faixa\<close> returns the quantity \<open>min(remaining, fim - inicio)\<close> and the amount
  quantity times rate; when the remaining consumption is \<open>\<ge> 0\<close> both are \<open>\<ge> 0\<close>, and
  the quantity is zero when the remaining consumption is zero.
\<close>

theorem calcular_faixa_tabela:
  assumes "fx \<in> set TARIFAS_FAIXAS"
  shows "calcular_faixa restante fx =
           (py_min restante (fsub (fst (snd fx)) (fst fx)),
            fmul (py_min restante (fsub (fst (snd fx)) (fst fx))) (snd (snd fx)))
       \<and> (fle (Fin 0) restante \<longrightarrow>
             fle (Fin 0) (fst (calcular_faixa restante fx))
           \<and> fle (Fin 0) (snd (calcular_faixa restante fx)))
       \<and> (restante = Fin 0 \<longrightarrow> fst (calcular_faixa restante fx) = Fin 0)"
  using assms
  by (cases restante)
    (auto simp: TARIFAS_FAIXAS_def calcular_faixa_def py_min_def fsub_def inf_times_def Let_def)

theorem calcular_faixa_tabela_witness:
  "(Fin 100, Fin 200, Fin 0.75) \<in> set TARIFAS_FAIXAS \<and> fle (Fin 0) (Fin 30)
     \<and> calcular_faixa (Fin 30) (Fin 100, Fin 200, Fin 0.75) = (Fin 30, Fin 22.5)
     \<and> fle (Fin 0) (fst (calcular_faixa (Fin 30) (Fin 100, Fin 200, Fin 0.75)))
     \<and> fle (Fin 0) (snd (calcular_faixa (Fin 30) (Fin 100, Fin 200, Fin 0.75)))
     \<and> fst (calcular_faixa (Fin 0) (Fin 100, Fin 200, Fin 0.75)) = Fin 0"
proof -
  have h: "(Fin 100, Fin 200, Fin 0.75) \<in> set TARIFAS_FAIXAS"
    by (simp add: TARIFAS_FAIXAS_def)
  from calcular_faixa_tabela [OF h, of "Fin 30"] calcular_faixa_tabela [OF h, of "Fin 0"] h
  show ?thesis
    by (simp add: py_min_def fsub_def)
qed

text \<open>
  The claim as stated also covers a negative remaining consumption. There the function
  has no guard of its own: the quantity is the negative remaining consumption itself,
  not zero, and the amount is negative. The loop of \<^verbatim>\<open>calcular_tarifacao_por_faixas\<close>
  leaves before it calls the function with a remaining consumption \<open>\<le> 0\<close>.
\<close>

theorem calcular_faixa_negativo_counterexample:
  "(Fin 0, Fin 100, Fin 0.50) \<in> set TARIFAS_FAIXAS \<and> fle (Fin (- 5)) (Fin 0)
     \<and> calcular_faixa (Fin (- 5)) (Fin 0, Fin 100, Fin 0.50) = (Fin (- 5), Fin (- 2.5))
     \<and> \<not> fle (Fin 0) (Fin (- 5)) \<and> \<not> fle (Fin 0) (Fin (- 2.5)) \<and> Fin (- 5) \<noteq> Fin 0"
  by (simp add: TARIFAS_FAIXAS_def calcular_faixa_def py_min_def fsub_def)

subsection \<open>The flag surcharge\<close>

lemma validar_entradas_bandeira:
  assumes "validar_entradas cs bs = (True, v, b, m)"
  shows "b \<in> set (map fst BANDEIRAS)"
  using assms
  by (auto simp: validar_entradas_def validar_bandeira_def Let_def
      split: prod.splits if_splits)

text \<open>
  Claim C5, as amended. For a flag of the table \<^verbatim>\<open>calcular_adicional_bandeira\<close> returns
  the subtotal times the rate of the flag (0.0, 0.05 and 0.10 for verde, amarela and
  vermelha). For any other name the dictionary lookup raises KeyError with that name;
  the function does not catch it and neither does \<^verbatim>\<open>calcular_faturamento\<close>. The gate
  is upstream: a flag that \<^verbatim>\<open>validar_entradas\<close> lets through is a key of the table.
\<close>

theorem adicional_bandeira_casos:
  "(\<forall>t. map_of BANDEIRAS b = Some t \<longrightarrow>
        calcular_adicional_bandeira subtotal b = Inr (fmul subtotal t))
   \<and> (b \<notin> set (map fst BANDEIRAS) \<longrightarrow>
        calcular_adicional_bandeira subtotal b = Inl (KeyError b)
      \<and> calcular_faturamento c b = Inl (KeyError b))
   \<and> (\<forall>cs bs v m. validar_entradas cs bs = (True, v, b, m) \<longrightarrow> b \<in> set (map fst BANDEIRAS))
   \<and> map_of BANDEIRAS ''verde'' = Some (Fin 0.0)
   \<and> map_of BANDEIRAS ''amarela'' = Some (Fin 0.05)
   \<and> map_of BANDEIRAS ''vermelha'' = Some (Fin 0.10)"
proof -
  obtain itens where itens: "calcular_tarifacao_por_faixas c = Inr itens"
    using tarifacao_total by blast
  have "b \<notin> set (map fst BANDEIRAS) \<Longrightarrow> map_of BANDEIRAS b = None"
    by (simp add: map_of_eq_None_iff)
  then show ?thesis
    using itens validar_entradas_bandeira
    by (auto simp: calcular_adicional_bandeira_def calcular_faturamento_def Let_def
        BANDEIRAS_def)
qed

theorem adicional_bandeira_casos_witness:
  "map_of BANDEIRAS ''amarela'' = Some (Fin 0.05)
   \<and> calcular_adicional_bandeira (Fin 175) ''amarela'' = Inr (Fin 8.75)
   \<and> ''roxa'' \<notin> set (map fst BANDEIRAS)
   \<and> calcular_adicional_bandeira (Fin 175) ''roxa'' = Inl (KeyError ''roxa'')
   \<and> calcular_faturamento (Fin 250) ''roxa'' = Inl (KeyError ''roxa'')
   \<and> validar_entradas ''250'' ''AMARELA'' = (True, Some (Fin 250), ''amarela'', '''')
   \<and> ''amarela'' \<in> set (map fst BANDEIRAS)"
proof -
  have h1: "''roxa'' \<notin> set (map fst BANDEIRAS)"
    by (simp add: BANDEIRAS_def)
  have h2: "validar_entradas ''250'' ''AMARELA'' = (True, Some (Fin 250), ''amarela'', '''')"
    by (simp add: val_defs validar_entradas_def validar_bandeira_def BANDEIRAS_def)
  have h3: "''amarela'' \<in> set (map fst BANDEIRAS)"
    by (simp add: BANDEIRAS_def)
  from adicional_bandeira_casos [of "''amarela''" "Fin 175" "Fin 250"]
    adicional_bandeira_casos [of "''roxa''" "Fin 175" "Fin 250"] h1 h2 h3
  show ?thesis by simp
qed

text \<open>
  The claim as stated has the function fail with the validation error of an unknown
  flag rather than with an uncaught fault. The validation error is the result
  \<open>(False, msg_bandeira)\<close> of \<^verbatim>\<open>validar_bandeira\<close>; the function itself raises the
  exception KeyError, which passes through \<^verbatim>\<open>calcular_faturamento\<close> uncaught.
\<close>

theorem adicional_bandeira_desconhecida_counterexample:
  "''roxa'' \<notin> set (map fst BANDEIRAS)
   \<and> calcular_adicional_bandeira (Fin 175) ''roxa'' = Inl (KeyError ''roxa'')
   \<and> calcular_faturamento (Fin 250) ''roxa'' = Inl (KeyError ''roxa'')
   \<and> validar_bandeira ''roxa'' = (False, msg_bandeira)"
  by (simp add: fat_defs tarifacao_faixa_3 validar_bandeira_def py_lower_def lower_char_def)

subsection \<open>Validation of the consumption\<close>








subsection \<open>Validation of the flag\<close>

lemma msg_bandeira_texto:
  "msg_bandeira = ''Bandeira inv'' @ [CHR 0xC3, CHR 0xA1] @ ''lida. Use: verde, amarela, vermelha''"
  by (simp add: msg_bandeira_def BANDEIRAS_def)

lemma chaves_na_mensagem:
  assumes "k \<in> set (map fst BANDEIRAS)"
  shows "sublist k msg_bandeira"
proof -
  have "k = ''verde'' \<or> k = ''amarela'' \<or> k = ''vermelha''"
    using assms by (simp add: BANDEIRAS_def)
  moreover have "msg_bandeira =
      (''Bandeira inv'' @ [CHR 0xC3, CHR 0xA1] @ ''lida. Use: '') @ ''verde'' @ '', amarela, vermelha''"
    by (simp add: msg_bandeira_texto)
  moreover have "msg_bandeira =
      (''Bandeira inv'' @ [CHR 0xC3, CHR 0xA1] @ ''lida. Use: verde, '') @ ''amarela'' @ '', vermelha''"
    by (simp add: msg_bandeira_texto)
  moreover have "msg_bandeira =
      (''Bandeira inv'' @ [CHR 0xC3, CHR 0xA1] @ ''lida. Use: verde, amarela, '') @ ''vermelha'' @ []"
    by (simp add: msg_bandeira_texto)
  ultimately show ?thesis
    by (metis sublist_appendI)
qed

lemma chaves_minusculas:
  assumes "k \<in> set (map fst BANDEIRAS)"
  shows "py_lower k = k"
  using assms by (auto simp: BANDEIRAS_def py_lower_def lower_char_def)

text \<open>
  Claim C7. The flag is compared in lower case with the keys of the table, which are
  verde, amarela and vermelha, themselves in lower case: texts that differ only in the
  case of their letters validate alike. On a match \<^verbatim>\<open>validar_bandeira\<close> succeeds and
  \<^verbatim>\<open>validar_entradas\<close>, given a valid consumption, returns the flag in lower case, so
  \<^verbatim>\<open>VERMELHA\<close> becomes \<^verbatim>\<open>vermelha\<close>. Without a match both fail with the message of the
  unknown flag, and every key of the table stands in that message.
\<close>

theorem validar_bandeira_casos:
  "(py_lower b \<in> set (map fst BANDEIRAS) \<longrightarrow>
       validar_bandeira b = (True, '''')
     \<and> (\<forall>cs v. validar_numero_positivo cs = (True, v, '''') \<longrightarrow>
           validar_entradas cs b = (True, v, py_lower b, '''')))
   \<and> (py_lower b \<notin> set (map fst BANDEIRAS) \<longrightarrow>
       validar_bandeira b = (False, msg_bandeira)
     \<and> (\<forall>cs v. validar_numero_positivo cs = (True, v, '''') \<longrightarrow>
           validar_entradas cs b = (False, None, '''', msg_bandeira)))
   \<and> (py_lower b = py_lower b' \<longrightarrow> validar_bandeira b = validar_bandeira b')
   \<and> (\<forall>k \<in> set (map fst BANDEIRAS). py_lower k = k \<and> sublist k msg_bandeira)
   \<and> set (map fst BANDEIRAS) = {''verde'', ''amarela'', ''vermelha''}
   \<and> py_lower ''VERMELHA'' = ''vermelha''
   \<and> validar_entradas ''100'' ''VERMELHA'' = (True, Some (Fin 100), ''vermelha'', '''')"
proof -
  have "validar_entradas ''100'' ''VERMELHA'' = (True, Some (Fin 100), ''vermelha'', '''')"
    by (simp add: val_defs validar_entradas_def validar_bandeira_def BANDEIRAS_def)
  moreover have "py_lower ''VERMELHA'' = ''vermelha''"
    by (simp add: py_lower_def lower_char_def)
  moreover have "set (map fst BANDEIRAS) = {''verde'', ''amarela'', ''vermelha''}"
    by (simp add: BANDEIRAS_def)
  moreover have "\<forall>k \<in> set (map fst BANDEIRAS). py_lower k = k \<and> sublist k msg_bandeira"
    using chaves_minusculas chaves_na_mensagem by blast
  moreover have "py_lower b = py_lower b' \<longrightarrow> validar_bandeira b = validar_bandeira b'"
    by (simp add: validar_bandeira_def)
  moreover have "py_lower b \<in> set (map fst BANDEIRAS) \<longrightarrow>
       validar_bandeira b = (True, '''')
     \<and> (\<forall>cs v. validar_numero_positivo cs = (True, v, '''') \<longrightarrow>
           validar_entradas cs b = (True, v, py_lower b, ''''))"
    by (simp add: validar_bandeira_def validar_entradas_def)
  moreover have "py_lower b \<notin> set (map fst BANDEIRAS) \<longrightarrow>
       validar_bandeira b = (False, msg_bandeira)
     \<and> (\<forall>cs v. validar_numero_positivo cs = (True, v, '''') \<longrightarrow>
           validar_entradas cs b = (False, None, '''', msg_bandeira))"
    by (simp add: validar_bandeira_def validar_entradas_def)
  ultimately show ?thesis by blast
qed

theorem validar_bandeira_casos_witness:
  "py_lower ''Amarela'' \<in> set (map fst BANDEIRAS)
   \<and> validar_bandeira ''Amarela'' = (True, '''')
   \<and> validar_numero_positivo ''30'' = (True, Some (Fin 30), '''')
   \<and> validar_entradas ''30'' ''Amarela'' = (True, Some (Fin 30), ''amarela'', '''')
   \<and> py_lower ''roxa'' \<notin> set (map fst BANDEIRAS)
   \<and> validar_bandeira ''roxa'' = (False, msg_bandeira)
   \<and> validar_entradas ''30'' ''roxa'' = (False, None, '''', msg_bandeira)
   \<and> py_lower ''Verde'' = py_lower ''VERDE''
   \<and> validar_bandeira ''Verde'' = validar_bandeira ''VERDE''
   \<and> sublist ''amarela'' msg_bandeira"
proof -
  have h1: "py_lower ''Amarela'' = ''amarela''" and h2: "py_lower ''roxa'' = ''roxa''"
    and h3: "py_lower ''Verde'' = py_lower ''VERDE''"
    by (simp_all add: py_lower_def lower_char_def)
  have h4: "validar_numero_positivo ''30'' = (True, Some (Fin 30), '''')"
    by (simp add: val_defs)
  have h5: "''amarela'' \<in> set (map fst BANDEIRAS)" "''roxa'' \<notin> set (map fst BANDEIRAS)"
    by (simp_all add: BANDEIRAS_def)
  from validar_bandeira_casos [of "''Amarela''" "''Amarela''"]
    validar_bandeira_casos [of "''roxa''" "''roxa''"]
    validar_bandeira_casos [of "''Verde''" "''VERDE''"] h1 h2 h3 h4 h5
  show ?thesis by simp
qed

end
